theory Spec2Isabelle
  imports Main "HOL-Library.Sublist"
begin

section \<open>Python values\<close>

text \<open>
  A Python \<open>str\<close> is a sequence of Unicode code points. Code points are natural numbers
  here, so that characters outside ASCII (the prompt and the replies contain some) and the
  digit characters that \<open>str.isdigit\<close> accepts are single elements, as they are in Python.
  \<open>lit\<close> reads an ASCII literal.
\<close>

type_synonym str = "nat list"

definition lit :: "string \<Rightarrow> str" where
  "lit s = map of_char s"

text \<open>
  The exceptions the program can meet. \<open>KeyError\<close>, \<open>IndexError\<close> and \<open>TypeError\<close> come from
  subscripting, \<open>ValueError\<close> from \<open>int\<close>; \<open>Raised c\<close> is any other exception, of class \<open>c\<close>,
  raised inside the HTTP client (connection refused, DNS failure, timeout, a body that is
  not JSON, ...). \<open>Raised_base c\<close> is an exception whose class derives from \<open>BaseException\<close>
  and not from \<open>Exception\<close> (\<open>asyncio.CancelledError\<close>, \<open>KeyboardInterrupt\<close>, \<open>SystemExit\<close>):
  an \<open>except Exception\<close> clause does not catch it.
\<close>

datatype py_exception =
  KeyError | IndexError | TypeError | ValueError | Raised str | Raised_base str

definition is_Exception :: "py_exception \<Rightarrow> bool" where
  "is_Exception e = (case e of Raised_base c \<Rightarrow> False | _ \<Rightarrow> True)"

text \<open>
  The objects \<open>response.json()\<close> yields and the payload is built from: \<open>None\<close>, \<open>bool\<close>,
  \<open>int\<close>, \<open>float\<close> (kept as its literal: no arithmetic is done on it), \<open>str\<close>, \<open>list\<close> and
  \<open>dict\<close> with \<open>str\<close> keys (the items in order).
\<close>

datatype py_value =
    Py_None
  | Py_bool bool
  | Py_int int
  | Py_float str
  | Py_str str
  | Py_list "py_value list"
  | Py_dict "(str \<times> py_value) list"

datatype subscript = Key str | Idx int

text \<open>\<open>xs[i]\<close> on a sequence: a negative index counts from the end, out of range raises.\<close>

definition seq_getitem :: "'a list \<Rightarrow> int \<Rightarrow> py_exception + 'a" where
  "seq_getitem xs i =
     (if 0 \<le> i \<and> i < int (length xs) then Inr (xs ! nat i)
      else if i < 0 \<and> - int (length xs) \<le> i then Inr (xs ! nat (int (length xs) + i))
      else Inl IndexError)"

text \<open>
  \<open>v[k]\<close>. A \<open>dict\<close> raises \<open>KeyError\<close> on a key it does not hold (its keys are strings, so
  on every integer); a \<open>list\<close> and a \<open>str\<close> raise \<open>IndexError\<close> out of range and \<open>TypeError\<close>
  on a string index; a \<open>str\<close> indexed in range gives the one-character string; \<open>None\<close>,
  \<open>bool\<close>, \<open>int\<close> and \<open>float\<close> are not subscriptable (\<open>TypeError\<close>).
\<close>

fun getitem :: "py_value \<Rightarrow> subscript \<Rightarrow> py_exception + py_value" where
  "getitem (Py_dict kvs) (Key k) = (case map_of kvs k of None \<Rightarrow> Inl KeyError | Some v \<Rightarrow> Inr v)"
| "getitem (Py_dict kvs) (Idx i) = Inl KeyError"
| "getitem (Py_list xs) (Idx i) = seq_getitem xs i"
| "getitem (Py_list xs) (Key k) = Inl TypeError"
| "getitem (Py_str s) (Idx i) =
     (case seq_getitem s i of Inl e \<Rightarrow> Inl e | Inr c \<Rightarrow> Inr (Py_str [c]))"
| "getitem (Py_str s) (Key k) = Inl TypeError"
| "getitem Py_None k = Inl TypeError"
| "getitem (Py_bool b) k = Inl TypeError"
| "getitem (Py_int n) k = Inl TypeError"
| "getitem (Py_float x) k = Inl TypeError"

text \<open>A chain of subscripts \<open>v[k1][k2]...\<close>, left to right; the first exception ends it.\<close>

fun getitems :: "py_value \<Rightarrow> subscript list \<Rightarrow> py_exception + py_value" where
  "getitems v [] = Inr v"
| "getitems v (k # ks) = (case getitem v k of Inl e \<Rightarrow> Inl e | Inr w \<Rightarrow> getitems w ks)"

text \<open>\<open>str(n)\<close> of an \<open>int\<close>, as the f-string \<open>{response.status}\<close> renders it.\<close>

function str_nat :: "nat \<Rightarrow> str" where
  "str_nat n = (if n < 10 then [48 + n] else str_nat (n div 10) @ [48 + n mod 10])"
  by pat_completeness auto
termination
  by (relation "measure (\<lambda>n. n)") auto

declare str_nat.simps [simp del]

definition str_int :: "int \<Rightarrow> str" where
  "str_int i = (if i < 0 then 45 # str_nat (nat (- i)) else str_nat (nat i))"

section \<open>The HTTP exchange\<close>

text \<open>
  What \<open>session.post(url, headers=..., json=...)\<close> sends, and what the program reads of
  the response: its \<open>status\<close>, and the outcomes of \<open>await response.text()\<close> and
  \<open>await response.json()\<close>, each a value or the exception the client raises.
\<close>

record request =
  req_url :: str
  req_headers :: "(str \<times> str) list"
  req_json :: py_value

record response =
  status :: int
  read_text :: "py_exception + str"
  read_json :: "py_exception + py_value"

text \<open>The remote endpoint and the network: a POST raises or yields a response.\<close>

type_synonym endpoint = "request \<Rightarrow> py_exception + response"

section \<open>The rewrite client (\<open>call_gemini_api\<close>)\<close>

definition GEMINI_URL :: str where
  "GEMINI_URL =
     lit ''https://generativelanguage.googleapis.com/v1beta/models/gemini-2.0-flash:generateContent''"

definition system_prompt :: str where
  "system_prompt =
       lit ''You are a technical support editor. Your task is to rewrite the user's text into ''
       @ lit ''clear, concise, and grammatically correct standard language (keep the same language as input). ''
       @ lit ''Guidelines:\<newline>''
       @ lit ''1. Fix spelling, grammar, and punctuation.\<newline>''
       @ lit ''2. Remove slang, aggression, and excessive abbreviations.\<newline>''
       @ lit ''3. IDENTITY PRESERVATION (CRITICAL): Detect usernames, nicknames, exact error codes, or file paths. ''
       @ lit ''Keep them EXACTLY as they appear (case-sensitive) and WRAP THEM in single backticks (`). ''
       @ lit ''Example: 'user_name' -> `user_name`. This prevents Discord formatting issues.\<newline>''
       @ lit ''4. FORMATTING: Use Discord Markdown to improve readability where useful. ''
       @ lit ''Use **bold** for emphasis or key concepts. Use bullet points ('' @ lit ''*'' @ lit '') if the input contains a list of items or steps.\<newline>''
       @ lit ''5. Output ONLY the rewritten text.\<newline>\<newline>''
       @ lit ''Examples:\<newline>''
       @ lit ''Input: ahoj Pepik123 jak se mas\<newline>''
       @ lit ''Output: Ahoj `Pepik123`, jak se m'' @ [0xE1] @ [0x161] @ lit ''?\<newline>''
       @ lit ''Input: ban user xX_Destroyer_Xx pls because he griefed\<newline>''
       @ lit ''Output: Please ban user `xX_Destroyer_Xx` because he **griefed**.\<newline>''
       @ lit ''Input: mam problem nejde mi mc, pise to error 500 a nevim heslo\<newline>''
       @ lit ''Output: M'' @ [0xE1] @ lit ''m probl'' @ [0xE9] @ lit ''m:\<newline>* Nejde mi **Minecraft**\<newline>* P'' @ [0xED] @ [0x161] @ lit ''e to `error 500`\<newline>* Nev'' @ [0xED] @ lit ''m heslo''"

text \<open>\<open>not GOOGLE_API_KEY\<close> holds for \<open>None\<close> (variable unset) and for the empty string.\<close>

definition truthy :: "str option \<Rightarrow> bool" where
  "truthy v = (case v of None \<Rightarrow> False | Some s \<Rightarrow> s \<noteq> [])"

text \<open>The local values \<open>headers\<close> and \<open>payload\<close> of \<open>call_gemini_api\<close>.\<close>

definition headers :: "str \<Rightarrow> (str \<times> str) list" where
  "headers key =
     [(lit ''Content-Type'', lit ''application/json''), (lit ''x-goog-api-key'', key)]"

definition payload :: "str \<Rightarrow> py_value" where
  "payload text_input =
     Py_dict [(lit ''contents'',
       Py_list [Py_dict [(lit ''parts'',
         Py_list [Py_dict [(lit ''text'',
           Py_str (system_prompt @ lit ''\<newline>\<newline>Input Text:\<newline>'' @ text_input))]])]])]"

definition text_path :: "subscript list" where
  "text_path =
     [Key (lit ''candidates''), Idx 0, Key (lit ''content''), Key (lit ''parts''), Idx 0,
      Key (lit ''text'')]"

definition missing_key_message :: str where
  "missing_key_message = lit ''[Error: API Key is missing. Check your .env file]''"

definition unexpected_format_message :: str where
  "unexpected_format_message = lit ''[Error: Unexpected response format from Google AI]''"

definition api_error_message :: "int \<Rightarrow> str \<Rightarrow> str" where
  "api_error_message code error_text =
     lit ''[API Error '' @ str_int code @ lit '']: '' @ error_text"

text \<open>
  What the function does once the response is there: a status other than 200 reads the
  body as text and returns the error string; status 200 parses the body and walks the
  path, and only \<open>KeyError\<close> and \<open>IndexError\<close> of the walk are caught.
\<close>

definition read_response :: "response \<Rightarrow> py_exception + py_value" where
  "read_response r =
     (if status r \<noteq> 200 then
        (case read_text r of
           Inl e \<Rightarrow> Inl e
         | Inr error_text \<Rightarrow> Inr (Py_str (api_error_message (status r) error_text)))
      else
        (case read_json r of
           Inl e \<Rightarrow> Inl e
         | Inr result \<Rightarrow>
             (case getitems result text_path of
                Inr v \<Rightarrow> Inr v
              | Inl e \<Rightarrow>
                  if e = KeyError \<or> e = IndexError then Inr (Py_str unexpected_format_message)
                  else Inl e)))"

text \<open>
  \<open>call_gemini_api\<close>, with the module constant \<open>GOOGLE_API_KEY\<close> and the endpoint as
  arguments. It returns the requests it has posted, in order, and its outcome: the value
  returned (\<open>Inr\<close>) or the exception that leaves the function (\<open>Inl\<close>).
\<close>

definition gemini_request :: "str \<Rightarrow> str \<Rightarrow> request" where
  "gemini_request key text_input =
     \<lparr>req_url = GEMINI_URL, req_headers = headers key, req_json = payload text_input\<rparr>"

definition call_gemini_api ::
  "str option \<Rightarrow> endpoint \<Rightarrow> str \<Rightarrow> request list \<times> (py_exception + py_value)" where
  "call_gemini_api GOOGLE_API_KEY post text_input =
     (case GOOGLE_API_KEY of
        None \<Rightarrow> ([], Inr (Py_str missing_key_message))
      | Some key \<Rightarrow>
          if key = [] then ([], Inr (Py_str missing_key_message))
          else
            (case post (gemini_request key text_input) of
               Inl e \<Rightarrow> ([gemini_request key text_input], Inl e)
             | Inr r \<Rightarrow> ([gemini_request key text_input], read_response r)))"

section \<open>The response path, as the interface states it\<close>

text \<open>
  The expected success body is \<open>{"candidates":[{"content":{"parts":[{"text": ...}]}}]}\<close>:
  the path \<open>candidates[0].content.parts[0].text\<close> names members of JSON objects and
  elements of JSON arrays. \<open>json_at\<close> follows such a path in the JSON sense: a member is
  looked up in an object only, an element in an array only. The path is \<open>Absent\<close> when an
  object lacks the member or an array the element, and the body is \<open>Malformed\<close> where a step
  meets a value of another kind.
\<close>

datatype json_step = Member str | Element nat

datatype json_lookup = Found py_value | Absent | Malformed

fun json_at :: "py_value \<Rightarrow> json_step list \<Rightarrow> json_lookup" where
  "json_at v [] = Found v"
| "json_at (Py_dict kvs) (Member k # p) =
     (case map_of kvs k of None \<Rightarrow> Absent | Some w \<Rightarrow> json_at w p)"
| "json_at (Py_list xs) (Element n # p) =
     (if n < length xs then json_at (xs ! n) p else Absent)"
| "json_at v (s # p) = Malformed"

definition response_text_path :: "json_step list" where
  "response_text_path =
     [Member (lit ''candidates''), Element 0, Member (lit ''content''), Member (lit ''parts''),
      Element 0, Member (lit ''text'')]"

fun subscript_of :: "json_step \<Rightarrow> subscript" where
  "subscript_of (Member k) = Key k"
| "subscript_of (Element n) = Idx (int n)"

text \<open>
  The request format, as the interface states it: \<open>{"contents":[{"parts":[{"text": ...}]}]}\<close>.
  \<open>prompt_parts\<close> collects every \<open>text\<close> member of every part of every content of a
  request body.
\<close>

fun members :: "py_value \<Rightarrow> str \<Rightarrow> py_value list" where
  "members (Py_dict kvs) k = map snd (filter (\<lambda>kv. fst kv = k) kvs)"
| "members v k = []"

fun elements :: "py_value \<Rightarrow> py_value list" where
  "elements (Py_list xs) = xs"
| "elements v = []"

definition prompt_parts :: "py_value \<Rightarrow> py_value list" where
  "prompt_parts body =
     [t. cs \<leftarrow> members body (lit ''contents''), c \<leftarrow> elements cs,
         ps \<leftarrow> members c (lit ''parts''), p \<leftarrow> elements ps,
         t \<leftarrow> members p (lit ''text'')]"

section \<open>The owner check\<close>

text \<open>
  \<open>str.isdigit\<close> and \<open>int\<close> read the Unicode character database of the interpreter: a
  character is a digit when its \<open>Numeric_Type\<close> is \<open>Decimal\<close> or \<open>Digit\<close>, and \<open>int\<close> converts
  the characters of type \<open>Decimal\<close> only. The database is an argument: it gives each code
  point its numeric type, with the digit value for \<open>Decimal\<close>.
\<close>

datatype numeric_type = Decimal nat | Digit | Not_digit

type_synonym unicode_db = "nat \<Rightarrow> numeric_type"

definition isdigit :: "unicode_db \<Rightarrow> str \<Rightarrow> bool" where
  "isdigit db s = (s \<noteq> [] \<and> (\<forall>c \<in> set s. db c \<noteq> Not_digit))"

fun decimal_digit :: "numeric_type \<Rightarrow> nat option" where
  "decimal_digit (Decimal d) = Some d"
| "decimal_digit Digit = None"
| "decimal_digit Not_digit = None"

text \<open>
  \<open>int(s)\<close> for a string \<open>s\<close> of digits (the only strings the program converts; signs,
  blanks and underscores are not digits). A character that is not a decimal raises
  \<open>ValueError\<close>, and so do more than \<open>max_str_digits\<close> characters, the interpreter's limit
  on the conversion (\<open>sys.get_int_max_str_digits()\<close>: 4300 unless configured, 0 for no
  limit and in interpreters that have none).
\<close>

definition int_of_digits :: "unicode_db \<Rightarrow> nat \<Rightarrow> str \<Rightarrow> py_exception + int" where
  "int_of_digits db max_str_digits s =
     (case those (map (\<lambda>c. decimal_digit (db c)) s) of
        None \<Rightarrow> Inl ValueError
      | Some ds \<Rightarrow>
          if max_str_digits \<noteq> 0 \<and> max_str_digits < length ds then Inl ValueError
          else Inr (int (foldl (\<lambda>n d. 10 * n + d) 0 ds)))"

text \<open>
  The module-level conversion of the environment variable \<open>BOT_OWNER_ID\<close> (\<open>None\<close> when
  unset). An exception here is raised while the module is loaded.
\<close>

definition BOT_OWNER_ID :: "unicode_db \<Rightarrow> nat \<Rightarrow> str option \<Rightarrow> py_exception + int" where
  "BOT_OWNER_ID db max_str_digits env =
     (case env of
        None \<Rightarrow> Inr 0
      | Some s \<Rightarrow> if s \<noteq> [] \<and> isdigit db s then int_of_digits db max_str_digits s else Inr 0)"

record discord_user =
  user_id :: int
  user_name :: str

record discord_interaction =
  user :: discord_user

definition is_bot_owner :: "int \<Rightarrow> discord_interaction \<Rightarrow> bool" where
  "is_bot_owner owner_id interaction = (user_id (user interaction) = owner_id)"

text \<open>The numeric types of the code points below U+0100, the same in every Unicode version.\<close>

definition latin1_db :: unicode_db where
  "latin1_db c =
     (if 48 \<le> c \<and> c \<le> 57 then Decimal (c - 48)
      else if c = 0xB2 \<or> c = 0xB3 \<or> c = 0xB9 then Digit
      else Not_digit)"

section \<open>The context-menu handlers\<close>

text \<open>
  A handler is modelled by the calls it makes on the framework and the network, in order;
  the framework's own calls are taken to succeed. The log line and the error reply
  \<open>Something went wrong: ...\<close> are kept as the values interpolated into them. \<open>Uncaught e\<close>
  ends the trace of a handler that the exception \<open>e\<close> leaves.
\<close>

record discord_message =
  content :: str
  message_id :: int
  author_display_name :: str

datatype effect =
    Log_info str int str str int
  | Send_message str bool
  | Defer bool
  | Http_post request
  | Followup_send py_value bool
  | Followup_embed py_value str bool
  | Followup_went_wrong py_exception
  | Uncaught py_exception

definition no_text_message :: str where
  "no_text_message = [0x274C] @ lit '' That message doesn't contain any text.''"

text \<open>
  Both handlers, with the function they call for the rewrite as an argument; the bot calls
  them with \<open>call_gemini_api\<close>. An exception of the rewrite is caught and reported when
  its class derives from \<open>Exception\<close> (\<open>except Exception as e\<close>); any other leaves the handler.
\<close>

definition deidiotize_context ::
  "(str \<Rightarrow> request list \<times> (py_exception + py_value)) \<Rightarrow>
   discord_interaction \<Rightarrow> discord_message \<Rightarrow> effect list" where
  "deidiotize_context rewrite interaction message =
     Log_info (user_name (user interaction)) (user_id (user interaction)) (lit ''De-idiotize'')
       (content message) (message_id message) #
     (let original_text = content message in
      if original_text = [] then [Send_message no_text_message True]
      else
        Defer False #
        (case rewrite original_text of
           (posted, Inr fixed_text) \<Rightarrow> map Http_post posted @ [Followup_send fixed_text False]
         | (posted, Inl e) \<Rightarrow>
             map Http_post posted @
             (if is_Exception e then [Followup_went_wrong e] else [Uncaught e])))"

definition deidiotize_context_ephemeral ::
  "(str \<Rightarrow> request list \<times> (py_exception + py_value)) \<Rightarrow>
   discord_interaction \<Rightarrow> discord_message \<Rightarrow> effect list" where
  "deidiotize_context_ephemeral rewrite interaction message =
     Log_info (user_name (user interaction)) (user_id (user interaction))
       (lit ''De-idiotize_Ephemeral'') (content message) (message_id message) #
     (let original_text = content message in
      if original_text = [] then [Send_message no_text_message True]
      else
        Defer True #
        (case rewrite original_text of
           (posted, Inr fixed_text) \<Rightarrow>
             map Http_post posted @
             [Followup_embed fixed_text (lit ''Original by '' @ author_display_name message) True]
         | (posted, Inl e) \<Rightarrow>
             map Http_post posted @
             (if is_Exception e then [Followup_went_wrong e] else [Uncaught e])))"

definition is_post :: "effect \<Rightarrow> bool" where
  "is_post x = (case x of Http_post req \<Rightarrow> True | _ \<Rightarrow> False)"

section \<open>Example exchanges\<close>

definition respond :: "response \<Rightarrow> endpoint" where
  "respond r req = Inr r"

definition refuse :: "py_exception \<Rightarrow> endpoint" where
  "refuse e req = Inl e"

definition quoted :: "str \<Rightarrow> str" where
  "quoted s = 34 # s @ [34]"

definition well_formed_body :: py_value where
  "well_formed_body =
     Py_dict [(lit ''candidates'',
       Py_list [Py_dict [(lit ''content'',
         Py_dict [(lit ''parts'', Py_list [Py_dict [(lit ''text'', Py_str (lit ''Ahoj''))]])])]])]"

definition well_formed_text :: str where
  "well_formed_text =
     lit ''{'' @ quoted (lit ''candidates'') @ lit '':[{'' @ quoted (lit ''content'') @ lit '':{'' @
     quoted (lit ''parts'') @ lit '':[{'' @ quoted (lit ''text'') @ lit '':'' @
     quoted (lit ''Ahoj'') @ lit ''}]}}]}''"

definition null_candidates_body :: py_value where
  "null_candidates_body = Py_dict [(lit ''candidates'', Py_None)]"

definition null_candidates_text :: str where
  "null_candidates_text = lit ''{'' @ quoted (lit ''candidates'') @ lit '':null}''"

definition ok_response :: response where
  "ok_response =
     \<lparr>status = 200, read_text = Inr well_formed_text, read_json = Inr well_formed_body\<rparr>"

definition created_response :: response where
  "created_response =
     \<lparr>status = 201, read_text = Inr well_formed_text, read_json = Inr well_formed_body\<rparr>"

definition empty_object_response :: "int \<Rightarrow> response" where
  "empty_object_response code =
     \<lparr>status = code, read_text = Inr (lit ''{}''), read_json = Inr (Py_dict [])\<rparr>"

definition null_candidates_response :: response where
  "null_candidates_response =
     \<lparr>status = 200, read_text = Inr null_candidates_text,
      read_json = Inr null_candidates_body\<rparr>"

definition truncated_response :: response where
  "truncated_response =
     \<lparr>status = 500, read_text = Inl (Raised (lit ''ClientPayloadError'')),
      read_json = Inl (Raised (lit ''ClientPayloadError''))\<rparr>"

definition internal_error_response :: response where
  "internal_error_response =
     \<lparr>status = 500, read_text = Inr (lit ''internal error''),
      read_json = Inl (Raised (lit ''ContentTypeError''))\<rparr>"

section \<open>Exchanges without a transport fault\<close>

text \<open>
  The POST is answered, and the body the function then reads can be read: as text when the
  status is not 200, as JSON that is not malformed along the response path when it is.
\<close>

definition exchange_completes :: "endpoint \<Rightarrow> request \<Rightarrow> bool" where
  "exchange_completes post req =
     (case post req of
        Inl e \<Rightarrow> False
      | Inr r \<Rightarrow>
          if status r \<noteq> 200 then (case read_text r of Inl e \<Rightarrow> False | Inr t \<Rightarrow> True)
          else
            (case read_json r of
               Inl e \<Rightarrow> False
             | Inr body \<Rightarrow> json_at body response_text_path \<noteq> Malformed))"

section \<open>Properties of the rewrite client\<close>

lemma call_gemini_api_no_key:
  "\<not> truthy GOOGLE_API_KEY \<Longrightarrow>
   call_gemini_api GOOGLE_API_KEY post text_input = ([], Inr (Py_str missing_key_message))"
  by (simp add: call_gemini_api_def truthy_def split: option.splits)

lemma call_gemini_api_key:
  "key \<noteq> [] \<Longrightarrow>
   call_gemini_api (Some key) post text_input =
     ([gemini_request key text_input],
      case post (gemini_request key text_input) of Inl e \<Rightarrow> Inl e | Inr r \<Rightarrow> read_response r)"
  by (simp add: call_gemini_api_def split: sum.splits)

lemma truthy_Some: "truthy (Some key) \<longleftrightarrow> key \<noteq> []"
  by (simp add: truthy_def)

lemma truthy_cases: "truthy k \<Longrightarrow> \<exists>key. k = Some key \<and> key \<noteq> []"
  by (cases k) (simp_all add: truthy_def)

lemma missing_key_message_prefix:
  "prefix (lit ''[Error: API Key is missing'') missing_key_message"
  by (simp add: missing_key_message_def lit_def)

text \<open>
  Claim C4. With no API key configured (the variable unset, or set to the empty string),
  \<open>call_gemini_api\<close> returns the string
  \<open>[Error: API Key is missing. Check your .env file]\<close> for every input text and every
  endpoint, and posts no request.
\<close>

theorem missing_key_returns_error_without_request:
  assumes "\<not> truthy GOOGLE_API_KEY"
  shows "snd (call_gemini_api GOOGLE_API_KEY post text_input) =
           Inr (Py_str (lit ''[Error: API Key is missing. Check your .env file]'')) \<and>
         fst (call_gemini_api GOOGLE_API_KEY post text_input) = []"
  using assms by (simp add: call_gemini_api_no_key missing_key_message_def)

theorem missing_key_returns_error_without_request_witness:
  "\<not> truthy None \<and>
   call_gemini_api None (\<lambda>req. Inl (Raised (lit ''ClientConnectorError''))) (lit ''ahoj'') =
     ([], Inr (Py_str (lit ''[Error: API Key is missing. Check your .env file]'')))"
  using missing_key_returns_error_without_request
    [of None "\<lambda>req. Inl (Raised (lit ''ClientConnectorError''))" "lit ''ahoj''"]
  by (simp add: truthy_def prod_eq_iff)

lemma text_path_subscripts: "map subscript_of response_text_path = text_path"
  by (simp add: response_text_path_def text_path_def)

lemma seq_getitem_nat: "n < length xs \<Longrightarrow> seq_getitem xs (int n) = Inr (xs ! n)"
  by (simp add: seq_getitem_def)

lemma seq_getitem_beyond: "\<not> n < length xs \<Longrightarrow> seq_getitem xs (int n) = Inl IndexError"
  by (simp add: seq_getitem_def)

text \<open>Where the JSON path exists, the chain of Python subscripts yields the same value.\<close>

lemma getitems_Found:
  "json_at v p = Found w \<Longrightarrow> getitems v (map subscript_of p) = Inr w"
proof (induction v p rule: json_at.induct)
  case (1 v)
  then show ?case by simp
next
  case (2 kvs k p)
  then show ?case by (simp split: option.splits)
next
  case (3 xs n p)
  then show ?case by (simp add: seq_getitem_nat split: if_splits)
qed simp_all

text \<open>Where it is absent, the chain raises one of the two exceptions the function catches.\<close>

lemma getitems_Absent:
  "json_at v p = Absent \<Longrightarrow>
   getitems v (map subscript_of p) = Inl KeyError \<or> getitems v (map subscript_of p) = Inl IndexError"
proof (induction v p rule: json_at.induct)
  case (1 v)
  then show ?case by simp
next
  case (2 kvs k p)
  then show ?case by (simp split: option.splits)
next
  case (3 xs n p)
  then show ?case by (simp add: seq_getitem_nat seq_getitem_beyond split: if_splits)
qed simp_all

lemma read_response_200_Found:
  assumes "status r = 200" and "read_json r = Inr body"
    and "json_at body response_text_path = Found v"
  shows "read_response r = Inr v"
  using assms getitems_Found [of body response_text_path v]
  by (simp add: read_response_def text_path_subscripts)

lemma read_response_200_Absent:
  assumes "status r = 200" and "read_json r = Inr body"
    and "json_at body response_text_path = Absent"
  shows "read_response r = Inr (Py_str unexpected_format_message)"
  using assms getitems_Absent [of body response_text_path]
  by (auto simp add: read_response_def text_path_subscripts)

lemma read_response_not_200:
  assumes "status r \<noteq> 200" and "read_text r = Inr error_text"
  shows "read_response r = Inr (Py_str (api_error_message (status r) error_text))"
  using assms by (simp add: read_response_def)

lemma lit_nonempty: "lit (c # cs) \<noteq> []"
  by (simp add: lit_def)

text \<open>
  Claim C1, as amended. When a key is configured and the POST is answered with status 200
  and a JSON body that contains the path \<open>candidates[0].content.parts[0].text\<close>,
  \<open>call_gemini_api\<close> returns exactly the value at that path, after exactly one request.
\<close>

theorem status_200_returns_text_at_path:
  assumes "key \<noteq> []"
    and "post (gemini_request key text_input) = Inr r"
    and "status r = 200"
    and "read_json r = Inr body"
    and "json_at body response_text_path = Found v"
  shows "call_gemini_api (Some key) post text_input = ([gemini_request key text_input], Inr v)"
  using assms by (simp add: call_gemini_api_key read_response_200_Found)

theorem status_200_returns_text_at_path_witness:
  "lit ''k3y'' \<noteq> [] \<and> status ok_response = 200 \<and>
   json_at well_formed_body response_text_path = Found (Py_str (lit ''Ahoj'')) \<and>
   call_gemini_api (Some (lit ''k3y'')) (respond ok_response) (lit ''ahoj'') =
     ([gemini_request (lit ''k3y'') (lit ''ahoj'')], Inr (Py_str (lit ''Ahoj'')))"
proof -
  have key: "lit ''k3y'' \<noteq> []"
    by (simp add: lit_def)
  have answered: "respond ok_response (gemini_request (lit ''k3y'') (lit ''ahoj'')) = Inr ok_response"
    by (simp add: respond_def)
  have ok: "status ok_response = 200"
    by (simp add: ok_response_def)
  have body: "read_json ok_response = Inr well_formed_body"
    by (simp add: ok_response_def)
  have found: "json_at well_formed_body response_text_path = Found (Py_str (lit ''Ahoj''))"
    by (simp add: well_formed_body_def response_text_path_def)
  from status_200_returns_text_at_path
    [of "lit ''k3y''" "respond ok_response" "lit ''ahoj''" ok_response well_formed_body
      "Py_str (lit ''Ahoj'')", OF key answered ok body found] key ok found
  show ?thesis by simp
qed

text \<open>
  The claim as stated fails on a 2xx status other than 200: a 201 response whose body holds
  the text \<open>Ahoj\<close> at the path is reported as an API error.
\<close>

theorem status_201_counterexample:
  "status created_response = 201 \<and>
   json_at well_formed_body response_text_path = Found (Py_str (lit ''Ahoj'')) \<and>
   snd (call_gemini_api (Some (lit ''k3y'')) (respond created_response) (lit ''ahoj'')) =
     Inr (Py_str (lit ''[API Error 201]: '' @ well_formed_text)) \<and>
   lit ''[API Error 201]: '' @ well_formed_text \<noteq> lit ''Ahoj''"
  by (simp add: call_gemini_api_key lit_nonempty respond_def read_response_not_200
      created_response_def api_error_message_def well_formed_body_def response_text_path_def
      str_int_def str_nat.simps lit_def)

text \<open>
  Claim C2, as amended. When a key is configured and the POST is answered with status 200
  and a JSON body in which the path \<open>candidates[0].content.parts[0].text\<close> is absent (an
  object on the path lacks the member, or an array lacks element 0, as in the body \<open>{}\<close>),
  \<open>call_gemini_api\<close> returns the string
  \<open>[Error: Unexpected response format from Google AI]\<close> and raises nothing.
\<close>

theorem status_200_absent_path_returns_format_error:
  assumes "key \<noteq> []"
    and "post (gemini_request key text_input) = Inr r"
    and "status r = 200"
    and "read_json r = Inr body"
    and "json_at body response_text_path = Absent"
  shows "call_gemini_api (Some key) post text_input =
           ([gemini_request key text_input],
            Inr (Py_str (lit ''[Error: Unexpected response format from Google AI]'')))"
  using assms
  by (simp add: call_gemini_api_key read_response_200_Absent unexpected_format_message_def)

theorem status_200_absent_path_returns_format_error_witness:
  "lit ''k3y'' \<noteq> [] \<and> status (empty_object_response 200) = 200 \<and>
   read_json (empty_object_response 200) = Inr (Py_dict []) \<and>
   json_at (Py_dict []) response_text_path = Absent \<and>
   call_gemini_api (Some (lit ''k3y'')) (respond (empty_object_response 200)) (lit ''ahoj'') =
     ([gemini_request (lit ''k3y'') (lit ''ahoj'')],
      Inr (Py_str (lit ''[Error: Unexpected response format from Google AI]'')))"
proof -
  have key: "lit ''k3y'' \<noteq> []"
    by (simp add: lit_def)
  have answered:
    "respond (empty_object_response 200) (gemini_request (lit ''k3y'') (lit ''ahoj'')) =
       Inr (empty_object_response 200)"
    by (simp add: respond_def)
  have ok: "status (empty_object_response 200) = 200"
    by (simp add: empty_object_response_def)
  have body: "read_json (empty_object_response 200) = Inr (Py_dict [])"
    by (simp add: empty_object_response_def)
  have absent: "json_at (Py_dict []) response_text_path = Absent"
    by (simp add: response_text_path_def)
  from status_200_absent_path_returns_format_error
    [of "lit ''k3y''" "respond (empty_object_response 200)" "lit ''ahoj''"
      "empty_object_response 200" "Py_dict []", OF key answered ok body absent]
    key ok body absent
  show ?thesis by simp
qed

text \<open>
  The claim as stated fails twice. A 201 response with the body \<open>{}\<close> is reported as an API
  error, not as an unexpected format. A 200 response with the body \<open>{"candidates": null}\<close>
  raises \<open>TypeError\<close>, which the \<open>except (KeyError, IndexError)\<close> clause does not catch.
\<close>

theorem unexpected_format_counterexample:
  "json_at (Py_dict []) response_text_path = Absent \<and>
   snd (call_gemini_api (Some (lit ''k3y'')) (respond (empty_object_response 201)) (lit ''ahoj'')) =
     Inr (Py_str (lit ''[API Error 201]: {}'')) \<and>
   json_at null_candidates_body response_text_path = Malformed \<and>
   snd (call_gemini_api (Some (lit ''k3y'')) (respond null_candidates_response) (lit ''ahoj'')) =
     Inl TypeError"
  by (simp add: call_gemini_api_key lit_nonempty respond_def read_response_def
      empty_object_response_def null_candidates_response_def null_candidates_body_def
      api_error_message_def response_text_path_def text_path_def
      str_int_def str_nat.simps lit_def)

lemma read_response_completes:
  assumes "post req = Inr r" and "exchange_completes post req"
  shows "\<exists>v. read_response r = Inr v"
proof (cases "status r = 200")
  case True
  with assms obtain body where body: "read_json r = Inr body"
    and shape: "json_at body response_text_path \<noteq> Malformed"
    by (auto simp add: exchange_completes_def split: sum.splits)
  show ?thesis
  proof (cases "json_at body response_text_path")
    case (Found v)
    with True body show ?thesis by (simp add: read_response_200_Found)
  next
    case Absent
    with True body show ?thesis by (simp add: read_response_200_Absent)
  next
    case Malformed
    with shape show ?thesis by simp
  qed
next
  case False
  with assms obtain t where "read_text r = Inr t"
    by (auto simp add: exchange_completes_def split: sum.splits)
  with False show ?thesis by (simp add: read_response_not_200)
qed

text \<open>
  Claim C3, as amended. \<open>call_gemini_api\<close> returns a value when no key is configured, and
  when the exchange completes: the POST is answered and the body can be read (as text for
  a status other than 200; for status 200 as JSON in which the response path is present or
  absent). Exceptions of the HTTP client are not caught inside \<open>call_gemini_api\<close>.
\<close>

theorem completed_exchange_returns_value:
  assumes "\<forall>key. GOOGLE_API_KEY = Some key \<and> key \<noteq> [] \<longrightarrow>
             exchange_completes post (gemini_request key text_input)"
  shows "\<exists>v. snd (call_gemini_api GOOGLE_API_KEY post text_input) = Inr v"
proof (cases "truthy GOOGLE_API_KEY")
  case False
  then show ?thesis by (simp add: call_gemini_api_no_key)
next
  case True
  then obtain key where key: "GOOGLE_API_KEY = Some key" "key \<noteq> []"
    using truthy_cases by blast
  with assms have completes: "exchange_completes post (gemini_request key text_input)"
    by simp
  then obtain r where r: "post (gemini_request key text_input) = Inr r"
    by (auto simp add: exchange_completes_def split: sum.splits)
  with completes obtain v where "read_response r = Inr v"
    using read_response_completes by blast
  with key r show ?thesis by (simp add: call_gemini_api_key)
qed

theorem completed_exchange_returns_value_witness:
  "exchange_completes (respond ok_response) (gemini_request (lit ''k3y'') (lit ''ahoj'')) \<and>
   (\<exists>v. snd (call_gemini_api (Some (lit ''k3y'')) (respond ok_response) (lit ''ahoj'')) = Inr v)"
proof -
  have completes: "exchange_completes (respond ok_response) (gemini_request (lit ''k3y'') (lit ''ahoj''))"
    by (simp add: exchange_completes_def respond_def ok_response_def well_formed_body_def
        response_text_path_def)
  from completed_exchange_returns_value
    [of "Some (lit ''k3y'')" "respond ok_response" "lit ''ahoj''"] completes
  show ?thesis by simp
qed

text \<open>
  The claim as stated fails on a transport fault: an exception raised by the POST (here a
  refused connection) leaves \<open>call_gemini_api\<close>.
\<close>

theorem connection_refused_counterexample:
  "call_gemini_api (Some (lit ''k3y'')) (refuse (Raised (lit ''ClientConnectorError'')))
     (lit ''ahoj'') =
   ([gemini_request (lit ''k3y'') (lit ''ahoj'')], Inl (Raised (lit ''ClientConnectorError'')))"
  by (simp add: call_gemini_api_key lit_nonempty refuse_def)

text \<open>
  \<open>str_int\<close> writes the decimal numeral: read back by \<open>int\<close>, it gives the number.
\<close>

lemma those_snoc:
  "those (xs @ [Some d]) = map_option (\<lambda>ds. ds @ [d]) (those xs)"
  by (induction xs) (auto split: option.splits simp: option.map_comp comp_def)

lemma latin1_digit: "d < 10 \<Longrightarrow> decimal_digit (latin1_db (48 + d)) = Some d"
  by (simp add: latin1_db_def)

lemma str_nat_digits:
  "\<exists>ds. those (map (\<lambda>c. decimal_digit (latin1_db c)) (str_nat n)) = Some ds \<and>
        foldl (\<lambda>n d. 10 * n + d) 0 ds = n"
proof (induction n rule: str_nat.induct)
  case (1 n)
  show ?case
  proof (cases "n < 10")
    case True
    then show ?thesis
      by (subst str_nat.simps) (simp add: latin1_digit)
  next
    case False
    with 1 obtain ds where ds:
      "those (map (\<lambda>c. decimal_digit (latin1_db c)) (str_nat (n div 10))) = Some ds"
      "foldl (\<lambda>n d. 10 * n + d) 0 ds = n div 10"
      by blast
    have "n mod 10 < 10" by simp
    then have last: "decimal_digit (latin1_db (48 + n mod 10)) = Some (n mod 10)"
      by (rule latin1_digit)
    from False ds last show ?thesis
      by (subst str_nat.simps) (simp add: those_snoc)
  qed
qed

lemma str_int_reads_back:
  "0 \<le> i \<Longrightarrow> int_of_digits latin1_db 0 (str_int i) = Inr i"
  using str_nat_digits [of "nat i"]
  by (auto simp add: int_of_digits_def str_int_def)

lemma api_error_message_contains:
  "sublist (str_int code) (api_error_message code error_text)"
  "sublist error_text (api_error_message code error_text)"
proof -
  show "sublist (str_int code) (api_error_message code error_text)"
    unfolding api_error_message_def by (rule sublist_appendI)
  have "api_error_message code error_text =
          (lit ''[API Error '' @ str_int code @ lit '']: '') @ error_text"
    by (simp add: api_error_message_def)
  then show "sublist error_text (api_error_message code error_text)"
    by (simp only: sublist_append_leftI)
qed

text \<open>
  Claim C5, as amended. When a key is configured and the POST is answered with a status
  outside 200..299 and a body that \<open>response.text()\<close> can read, \<open>call_gemini_api\<close> returns
  the string \<open>[API Error <status>]: <body>\<close>, which contains the decimal status code and the
  raw body.
\<close>

theorem non_2xx_returns_status_and_body:
  assumes "key \<noteq> []"
    and "post (gemini_request key text_input) = Inr r"
    and "status r < 200 \<or> 299 < status r"
    and "read_text r = Inr error_text"
  shows "snd (call_gemini_api (Some key) post text_input) =
           Inr (Py_str (lit ''[API Error '' @ str_int (status r) @ lit '']: '' @ error_text)) \<and>
         sublist (str_int (status r))
           (lit ''[API Error '' @ str_int (status r) @ lit '']: '' @ error_text) \<and>
         sublist error_text
           (lit ''[API Error '' @ str_int (status r) @ lit '']: '' @ error_text)"
proof -
  from assms(3) have "status r \<noteq> 200" by auto
  with assms(1,2,4) have
    "snd (call_gemini_api (Some key) post text_input) =
       Inr (Py_str (api_error_message (status r) error_text))"
    by (simp add: call_gemini_api_key read_response_not_200)
  with api_error_message_contains [where code = "status r" and error_text = error_text]
  show ?thesis
    by (simp add: api_error_message_def)
qed

theorem non_2xx_returns_status_and_body_witness:
  "status internal_error_response = 500 \<and>
   read_text internal_error_response = Inr (lit ''internal error'') \<and>
   str_int 500 = lit ''500'' \<and>
   snd (call_gemini_api (Some (lit ''k3y'')) (respond internal_error_response) (lit ''ahoj'')) =
     Inr (Py_str (lit ''[API Error 500]: internal error'')) \<and>
   sublist (lit ''500'') (lit ''[API Error 500]: internal error'') \<and>
   sublist (lit ''internal error'') (lit ''[API Error 500]: internal error'')"
proof -
  have key: "lit ''k3y'' \<noteq> []"
    by (simp add: lit_def)
  have answered:
    "respond internal_error_response (gemini_request (lit ''k3y'') (lit ''ahoj'')) =
       Inr internal_error_response"
    by (simp add: respond_def)
  have code: "status internal_error_response = 500"
    by (simp add: internal_error_response_def)
  then have outside: "status internal_error_response < 200 \<or> 299 < status internal_error_response"
    by simp
  have body: "read_text internal_error_response = Inr (lit ''internal error'')"
    by (simp add: internal_error_response_def)
  have digits: "str_int 500 = lit ''500''"
    by (simp add: str_int_def str_nat.simps lit_def)
  have whole:
    "lit ''[API Error '' @ lit ''500'' @ lit '']: '' @ lit ''internal error'' =
       lit ''[API Error 500]: internal error''"
    by (simp add: lit_def)
  from non_2xx_returns_status_and_body
    [of "lit ''k3y''" "respond internal_error_response" "lit ''ahoj''" internal_error_response
      "lit ''internal error''", OF key answered outside body]
  show ?thesis
    by (simp only: code body digits whole simp_thms)
qed

lemma prompt_parts_payload:
  "prompt_parts (payload text_input) =
     [Py_str (system_prompt @ lit ''\<newline>\<newline>Input Text:\<newline>'' @ text_input)]"
  by (simp add: prompt_parts_def payload_def)

lemma posted_requests:
  "fst (call_gemini_api GOOGLE_API_KEY post text_input) =
     (case GOOGLE_API_KEY of
        None \<Rightarrow> []
      | Some key \<Rightarrow> if key = [] then [] else [gemini_request key text_input])"
  by (simp add: call_gemini_api_def split: option.splits sum.splits)

text \<open>
  The claim as stated fails on a non-2xx response whose body cannot be read: the exception
  of \<open>response.text()\<close> (here a truncated body under status 500) leaves \<open>call_gemini_api\<close>,
  and no string is returned.
\<close>

theorem unreadable_body_counterexample:
  "status truncated_response = 500 \<and>
   read_text truncated_response = Inl (Raised (lit ''ClientPayloadError'')) \<and>
   call_gemini_api (Some (lit ''k3y'')) (respond truncated_response) (lit ''ahoj'') =
     ([gemini_request (lit ''k3y'') (lit ''ahoj'')], Inl (Raised (lit ''ClientPayloadError'')))"
  by (simp add: call_gemini_api_key lit_nonempty respond_def read_response_def
      truncated_response_def)

text \<open>
  Claim C6. For every input string (and every configured key and endpoint), the body of
  the request that \<open>call_gemini_api\<close> posts holds exactly one text part, and that part is
  the system prompt, then \<open>\n\nInput Text:\n\<close>, then the input string itself, unchanged.
\<close>

theorem request_body_single_text_part:
  assumes "key \<noteq> []"
  shows "map (\<lambda>req. prompt_parts (req_json req))
           (fst (call_gemini_api (Some key) post text_input)) =
         [[Py_str (system_prompt @ lit ''\<newline>\<newline>Input Text:\<newline>'' @ text_input)]]"
  using assms by (simp add: posted_requests gemini_request_def prompt_parts_payload)

theorem request_body_single_text_part_witness:
  "lit ''k3y'' \<noteq> [] \<and>
   map (\<lambda>req. prompt_parts (req_json req))
     (fst (call_gemini_api (Some (lit ''k3y'')) (respond ok_response) (lit '' ahoj  ''))) =
   [[Py_str (system_prompt @ lit ''\<newline>\<newline>Input Text:\<newline>'' @ lit '' ahoj  '')]]"
  using request_body_single_text_part [of "lit ''k3y''" "respond ok_response" "lit '' ahoj  ''"]
  by (simp add: lit_nonempty)

lemma key_header_distinct: "lit ''Content-Type'' \<noteq> lit ''x-goog-api-key''"
  by (simp add: lit_def)

text \<open>
  Claim C7. The API key reaches the request only as the value of the header
  \<open>x-goog-api-key\<close>: for every input string and any two configured keys (and any
  endpoints), the requests posted have the same URL, the same JSON body and the same
  other headers, and the header \<open>x-goog-api-key\<close> of each request holds the key.
\<close>

theorem api_key_only_in_header:
  assumes "key \<noteq> []" and "key' \<noteq> []"
  shows "map req_url (fst (call_gemini_api (Some key) post text_input)) =
           map req_url (fst (call_gemini_api (Some key') post' text_input)) \<and>
         map req_json (fst (call_gemini_api (Some key) post text_input)) =
           map req_json (fst (call_gemini_api (Some key') post' text_input)) \<and>
         map (\<lambda>req. filter (\<lambda>h. fst h \<noteq> lit ''x-goog-api-key'') (req_headers req))
             (fst (call_gemini_api (Some key) post text_input)) =
           map (\<lambda>req. filter (\<lambda>h. fst h \<noteq> lit ''x-goog-api-key'') (req_headers req))
             (fst (call_gemini_api (Some key') post' text_input)) \<and>
         map (\<lambda>req. map_of (req_headers req) (lit ''x-goog-api-key''))
             (fst (call_gemini_api (Some key) post text_input)) = [Some key]"
  using assms
  by (simp add: posted_requests gemini_request_def headers_def key_header_distinct
      key_header_distinct [symmetric])

theorem api_key_only_in_header_witness:
  "lit ''k3y'' \<noteq> [] \<and> lit ''other'' \<noteq> [] \<and>
   map req_url (fst (call_gemini_api (Some (lit ''k3y'')) (respond ok_response) (lit ''ahoj''))) =
     map req_url
       (fst (call_gemini_api (Some (lit ''other'')) (refuse TypeError) (lit ''ahoj''))) \<and>
   map req_json (fst (call_gemini_api (Some (lit ''k3y'')) (respond ok_response) (lit ''ahoj''))) =
     map req_json
       (fst (call_gemini_api (Some (lit ''other'')) (refuse TypeError) (lit ''ahoj''))) \<and>
   map (\<lambda>req. map_of (req_headers req) (lit ''x-goog-api-key''))
     (fst (call_gemini_api (Some (lit ''k3y'')) (respond ok_response) (lit ''ahoj''))) =
     [Some (lit ''k3y'')]"
  using api_key_only_in_header
    [of "lit ''k3y''" "lit ''other''" "respond ok_response" "lit ''ahoj''" "refuse TypeError"]
  by (simp add: lit_nonempty)

text \<open>
  Claim C8. One call of \<open>call_gemini_api\<close> posts exactly one request when an API key is
  configured and none when it is not, whatever the endpoint answers or raises: there is no
  retry and no second call.
\<close>

theorem at_most_one_post:
  "length (fst (call_gemini_api GOOGLE_API_KEY post text_input)) =
     (if truthy GOOGLE_API_KEY then 1 else 0)"
proof (cases "truthy GOOGLE_API_KEY")
  case False
  then have "fst (call_gemini_api GOOGLE_API_KEY post text_input) = []"
    by (simp add: call_gemini_api_no_key)
  with False show ?thesis by simp
next
  case True
  then obtain key where key: "GOOGLE_API_KEY = Some key" "key \<noteq> []"
    using truthy_cases by blast
  then have "fst (call_gemini_api GOOGLE_API_KEY post text_input) =
               [gemini_request key text_input]"
    by (simp add: call_gemini_api_key)
  with True show ?thesis by simp
qed

lemma no_text_message_says:
  "sublist (lit ''doesn't contain any text'') no_text_message"
  by (simp add: no_text_message_def lit_def) code_simp

text \<open>
  Claim C10. For a target message with empty content, both context-menu handlers log the
  action, reply with the ephemeral message \<open>That message doesn't contain any text.\<close> and
  return: the result is the same whatever the rewrite function is, so it is never called;
  with \<open>call_gemini_api\<close> as the rewrite function no request is posted.
\<close>

theorem empty_message_is_not_rewritten:
  assumes "content message = []"
  shows "deidiotize_context rewrite interaction message =
           [Log_info (user_name (user interaction)) (user_id (user interaction))
              (lit ''De-idiotize'') [] (message_id message),
            Send_message ([0x274C] @ lit '' That message doesn't contain any text.'') True] \<and>
         deidiotize_context_ephemeral rewrite interaction message =
           [Log_info (user_name (user interaction)) (user_id (user interaction))
              (lit ''De-idiotize_Ephemeral'') [] (message_id message),
            Send_message ([0x274C] @ lit '' That message doesn't contain any text.'') True] \<and>
         filter is_post
           (deidiotize_context (call_gemini_api GOOGLE_API_KEY post) interaction message) = [] \<and>
         filter is_post
           (deidiotize_context_ephemeral (call_gemini_api GOOGLE_API_KEY post) interaction
              message) = []"
  using assms
  by (simp add: deidiotize_context_def deidiotize_context_ephemeral_def no_text_message_def
      is_post_def)

theorem empty_message_is_not_rewritten_witness:
  "content \<lparr>content = [], message_id = 7, author_display_name = lit ''Pepik''\<rparr> = [] \<and>
   deidiotize_context (call_gemini_api (Some (lit ''k3y'')) (respond ok_response))
     \<lparr>user = \<lparr>user_id = 42, user_name = lit ''fofola''\<rparr>\<rparr>
     \<lparr>content = [], message_id = 7, author_display_name = lit ''Pepik''\<rparr> =
     [Log_info (lit ''fofola'') 42 (lit ''De-idiotize'') [] 7,
      Send_message ([0x274C] @ lit '' That message doesn't contain any text.'') True] \<and>
   deidiotize_context_ephemeral (call_gemini_api (Some (lit ''k3y'')) (respond ok_response))
     \<lparr>user = \<lparr>user_id = 42, user_name = lit ''fofola''\<rparr>\<rparr>
     \<lparr>content = [], message_id = 7, author_display_name = lit ''Pepik''\<rparr> =
     [Log_info (lit ''fofola'') 42 (lit ''De-idiotize_Ephemeral'') [] 7,
      Send_message ([0x274C] @ lit '' That message doesn't contain any text.'') True]"
  using empty_message_is_not_rewritten
    [of "\<lparr>content = [], message_id = 7, author_display_name = lit ''Pepik''\<rparr>"
      "call_gemini_api (Some (lit ''k3y'')) (respond ok_response)"
      "\<lparr>user = \<lparr>user_id = 42, user_name = lit ''fofola''\<rparr>\<rparr>"]
  by simp

text \<open>A message with text is rewritten: the handler defers, posts once and follows up.\<close>

lemma text_message_is_rewritten:
  "filter is_post
     (deidiotize_context (call_gemini_api (Some (lit ''k3y'')) (respond ok_response))
        \<lparr>user = \<lparr>user_id = 42, user_name = lit ''fofola''\<rparr>\<rparr>
        \<lparr>content = lit ''ahoj'', message_id = 7, author_display_name = lit ''Pepik''\<rparr>) =
   [Http_post (gemini_request (lit ''k3y'') (lit ''ahoj''))]"
  by (simp add: deidiotize_context_def call_gemini_api_key lit_nonempty respond_def is_post_def
      Let_def split: sum.splits)

text \<open>
  An exception of the rewrite that derives from \<open>Exception\<close> is reported to the user; a
  cancellation is not caught and leaves the handler.
\<close>

lemma transport_fault_is_reported:
  "deidiotize_context
     (call_gemini_api (Some (lit ''k3y'')) (refuse (Raised (lit ''ClientConnectorError''))))
     \<lparr>user = \<lparr>user_id = 42, user_name = lit ''fofola''\<rparr>\<rparr>
     \<lparr>content = lit ''ahoj'', message_id = 7, author_display_name = lit ''Pepik''\<rparr> =
   [Log_info (lit ''fofola'') 42 (lit ''De-idiotize'') (lit ''ahoj'') 7, Defer False,
    Http_post (gemini_request (lit ''k3y'') (lit ''ahoj'')),
    Followup_went_wrong (Raised (lit ''ClientConnectorError''))]"
  by (simp add: deidiotize_context_def call_gemini_api_key lit_nonempty refuse_def
      is_Exception_def Let_def)

lemma cancellation_leaves_handler:
  "deidiotize_context_ephemeral
     (call_gemini_api (Some (lit ''k3y'')) (refuse (Raised_base (lit ''CancelledError''))))
     \<lparr>user = \<lparr>user_id = 42, user_name = lit ''fofola''\<rparr>\<rparr>
     \<lparr>content = lit ''ahoj'', message_id = 7, author_display_name = lit ''Pepik''\<rparr> =
   [Log_info (lit ''fofola'') 42 (lit ''De-idiotize_Ephemeral'') (lit ''ahoj'') 7, Defer True,
    Http_post (gemini_request (lit ''k3y'') (lit ''ahoj'')),
    Uncaught (Raised_base (lit ''CancelledError''))]"
  by (simp add: deidiotize_context_ephemeral_def call_gemini_api_key lit_nonempty refuse_def
      is_Exception_def Let_def)

section \<open>Properties of the owner check\<close>

lemma is_bot_owner_iff:
  "is_bot_owner owner_id interaction \<longleftrightarrow> user_id (user interaction) = owner_id"
  by (simp add: is_bot_owner_def)

lemma owner_id_unset: "BOT_OWNER_ID db max_str_digits None = Inr 0"
  by (simp add: BOT_OWNER_ID_def)

lemma owner_id_not_isdigit:
  "\<not> isdigit db s \<Longrightarrow> BOT_OWNER_ID db max_str_digits (Some s) = Inr 0"
  by (simp add: BOT_OWNER_ID_def)

lemma owner_id_ascii_example:
  "BOT_OWNER_ID latin1_db 4300 (Some (lit ''0042'')) = Inr 42"
  by (simp add: BOT_OWNER_ID_def isdigit_def int_of_digits_def latin1_db_def lit_def)

text \<open>
  Claim C9. \<open>is_bot_owner\<close> is the equality of the user's ID with the configured owner
  ID, and that ID is 0 when \<open>BOT_OWNER_ID\<close> is unset, empty or not accepted by \<open>isdigit\<close>.
  The conversion goes wrong on a value that \<open>isdigit\<close> accepts and \<open>int\<close> rejects: for a
  string such as the superscript two (U+00B2), a digit that is not a decimal, the owner ID is
  not 0; \<open>int\<close> raises \<open>ValueError\<close> while the module is loaded.
\<close>

theorem superscript_digit_owner_id_raises:
  assumes "db 0xB2 = Digit"
  shows "isdigit db [0xB2] \<and> BOT_OWNER_ID db max_str_digits (Some [0xB2]) = Inl ValueError"
  using assms by (simp add: BOT_OWNER_ID_def isdigit_def int_of_digits_def)

theorem superscript_digit_owner_id_raises_witness:
  "latin1_db 0xB2 = Digit \<and> BOT_OWNER_ID latin1_db 4300 (Some [0xB2]) = Inl ValueError"
  using superscript_digit_owner_id_raises [of latin1_db 4300]
  by (simp add: latin1_db_def)

end
